theory Spec2Isabelle
  imports Main "HOL-Library.Word" "HOL-Library.Sublist" "HOL-Library.Multiset"
begin

section \<open>Data model of hacker-scoper\<close>

text \<open>
  The program keeps every classified line in an \<open>interface{}\<close> and dispatches on its
  dynamic type. The dynamic types that \<open>parseLine\<close> produces and that \<open>isInscope\<close> and
  \<open>isInscopeIP\<close> inspect are the constructors of \<open>parsed\<close> below. Go's \<open>net.IP\<close> is a
  byte slice, \<open>net.IPNet\<close> a pair of byte slices, \<open>url.URL\<close> a struct of strings.
\<close>

type_synonym byte = "8 word"

type_synonym IP = "byte list"

record IPNet =
  IPNet_IP :: IP
  IPNet_Mask :: "byte list"

record URL =
  Scheme :: string
  Opaque :: string
  Host :: string
  Path :: string
  OmitHost :: bool
  RawQuery :: string
  Fragment :: string

text \<open>
  A compiled \<open>regexp.Regexp\<close> is used by the program through \<open>MatchString\<close> only, which
  in Go reports whether the subject contains any match of the expression (an unanchored
  search). A compiled expression is modelled by that predicate.
\<close>

datatype Regexp = Regexp (MatchString: "string \<Rightarrow> bool")

record URLWithIPAddressHost =
  rawURL :: string
  IPhost :: IP

record NmapIPRange =
  Octets :: "byte list list"
  Raw :: string

datatype parsed =
    IPNetV IPNet
  | IPV IP
  | NmapIPRangeV NmapIPRange
  | StringV string
  | WildcardScopeV Regexp
  | RegexpV Regexp
  | URLV URL
  | URLWithIPAddressHostV URLWithIPAddressHost

text \<open>
  The functions of Go's standard library (and of \<open>golang.org/x/net/publicsuffix\<close>) that
  the program calls and whose code is not part of the repository are parameters of the
  model, collected in one record that every function using them receives.
\<close>

record stdlib =
  regexp_Compile :: "string \<Rightarrow> Regexp option"
  net_ParseIP :: "string \<Rightarrow> IP option"
  net_ParseCIDR :: "string \<Rightarrow> IPNet option"
  url_Parse :: "string \<Rightarrow> URL option"
  url_String :: "URL \<Rightarrow> string"
  publicsuffix_PublicSuffix :: "string \<Rightarrow> string \<times> bool"

section \<open>Library functions with a direct definition\<close>

subsection \<open>Package strings\<close>

definition HasPrefix :: "string \<Rightarrow> string \<Rightarrow> bool" where
  "HasPrefix s pre = (length s \<ge> length pre \<and> take (length pre) s = pre)"

definition HasSuffix :: "string \<Rightarrow> string \<Rightarrow> bool" where
  "HasSuffix s suf = (length s \<ge> length suf \<and> drop (length s - length suf) s = suf)"

fun LastIndexByte :: "string \<Rightarrow> char \<Rightarrow> nat option" where
  "LastIndexByte [] c = None"
| "LastIndexByte (x # xs) c =
     (case LastIndexByte xs c of
        Some i \<Rightarrow> Some (Suc i)
      | None \<Rightarrow> (if x = c then Some 0 else None))"

subsection \<open>Package net/url: the port of a host\<close>

definition isDigit :: "char \<Rightarrow> bool" where
  "isDigit c = (48 \<le> (of_char c :: nat) \<and> (of_char c :: nat) \<le> 57)"

definition validOptionalPort :: "string \<Rightarrow> bool" where
  "validOptionalPort port =
     (case port of [] \<Rightarrow> True | c # ds \<Rightarrow> c = CHR '':'' \<and> list_all isDigit ds)"

definition URL_Port :: "URL \<Rightarrow> string" where
  "URL_Port u =
     (case LastIndexByte (Host u) (CHR '':'') of
        None \<Rightarrow> []
      | Some colon \<Rightarrow>
          (if validOptionalPort (drop colon (Host u)) then drop (Suc colon) (Host u) else []))"

subsection \<open>Package net: addresses and networks\<close>

definition v4InV6Prefix :: "byte list" where
  "v4InV6Prefix = [0, 0, 0, 0, 0, 0, 0, 0, 0, 0, 255, 255]"

definition IP_To4 :: "IP \<Rightarrow> IP option" where
  "IP_To4 ip =
     (if length ip = 4 then Some ip
      else if length ip = 16 \<and> list_all (\<lambda>b. b = 0) (take 10 ip)
              \<and> ip ! 10 = 255 \<and> ip ! 11 = 255
      then Some (drop 12 ip)
      else None)"

definition IP_Equal :: "IP \<Rightarrow> IP \<Rightarrow> bool" where
  "IP_Equal ip x =
     (if length ip = length x then ip = x
      else if length ip = 4 \<and> length x = 16
      then take 12 x = v4InV6Prefix \<and> ip = drop 12 x
      else if length ip = 16 \<and> length x = 4
      then take 12 ip = v4InV6Prefix \<and> drop 12 ip = x
      else False)"

definition networkNumberAndMask :: "IPNet \<Rightarrow> (IP \<times> byte list) option" where
  "networkNumberAndMask n =
     (case (case IP_To4 (IPNet_IP n) of
              Some ip4 \<Rightarrow> Some ip4
            | None \<Rightarrow> (if length (IPNet_IP n) \<noteq> 16 then None else Some (IPNet_IP n))) of
        None \<Rightarrow> None
      | Some ip \<Rightarrow>
          (if length (IPNet_Mask n) = 4
           then (if length ip \<noteq> 4 then None else Some (ip, IPNet_Mask n))
           else if length (IPNet_Mask n) = 16
           then (if length ip = 4 then Some (ip, drop 12 (IPNet_Mask n))
                 else Some (ip, IPNet_Mask n))
           else None))"

fun masked_equal :: "byte list \<Rightarrow> byte list \<Rightarrow> byte list \<Rightarrow> bool" where
  "masked_equal (a # nn) (k # m) (b # ip) =
     (if and a k \<noteq> and b k then False else masked_equal nn m ip)"
| "masked_equal nn m ip = True"

definition IPNet_Contains :: "IPNet \<Rightarrow> IP \<Rightarrow> bool" where
  "IPNet_Contains n ip =
     (case networkNumberAndMask n of
        None \<Rightarrow> (case IP_To4 ip of Some x \<Rightarrow> length x = 0 | None \<Rightarrow> length ip = 0)
      | Some (nn, m) \<Rightarrow>
          (let ip' = (case IP_To4 ip of Some x \<Rightarrow> x | None \<Rightarrow> ip)
           in if length ip' \<noteq> length nn then False else masked_equal nn m ip'))"

section \<open>The scope matcher\<close>

definition removePortFromHost :: "URL \<Rightarrow> string" where
  "removePortFromHost myurl =
     (let portLength = length (URL_Port myurl)
      in if portLength \<noteq> 0
         then (let hostLength = length (Host myurl)
               in take (hostLength - portLength - 1) (Host myurl))
         else Host myurl)"

text \<open>
  \<open>isInscopeIP\<close>, explicit level 3: the loop over the scopes, with the named result
  \<open>result\<close> carried from one iteration to the next as the Go code does.
\<close>

fun isInscopeIP_level3 :: "IP \<Rightarrow> bool \<Rightarrow> parsed list \<Rightarrow> bool" where
  "isInscopeIP_level3 targetIP result [] = False"
| "isInscopeIP_level3 targetIP result (s # rest) =
     (let result' = (case s of IPV assertedScope \<Rightarrow> IP_Equal assertedScope targetIP
                             | _ \<Rightarrow> result)
      in if result' then result' else isInscopeIP_level3 targetIP result' rest)"

text \<open>The two nested loops of the \<open>NmapIPRange\<close> case.\<close>

fun octet_found :: "byte \<Rightarrow> byte list \<Rightarrow> bool" where
  "octet_found b [] = False"
| "octet_found b (v # vs) = (if b = v then True else octet_found b vs)"

fun nmap_octets_match :: "nat list \<Rightarrow> IP \<Rightarrow> byte list list \<Rightarrow> bool" where
  "nmap_octets_match [] ip octs = True"
| "nmap_octets_match (i # is) ip octs =
     (if \<not> octet_found (ip ! i) (octs ! i) then False else nmap_octets_match is ip octs)"

text \<open>
  \<open>isInscopeIP\<close>, any other level. In the \<open>NmapIPRange\<close> case an address with no
  4-byte form takes \<open>continue\<close>, which skips the test of \<open>result\<close>.
\<close>

fun isInscopeIP_other :: "IP \<Rightarrow> bool \<Rightarrow> parsed list \<Rightarrow> bool" where
  "isInscopeIP_other targetIP result [] = False"
| "isInscopeIP_other targetIP result (s # rest) =
     (case s of
        IPNetV assertedScope \<Rightarrow>
          (let result' = IPNet_Contains assertedScope targetIP
           in if result' then result' else isInscopeIP_other targetIP result' rest)
      | IPV assertedScope \<Rightarrow>
          (let result' = IP_Equal assertedScope targetIP
           in if result' then result' else isInscopeIP_other targetIP result' rest)
      | NmapIPRangeV assertedScope \<Rightarrow>
          (case IP_To4 targetIP of
             None \<Rightarrow> isInscopeIP_other targetIP result rest
           | Some ip \<Rightarrow>
               (let result' = nmap_octets_match [0, 1, 2, 3] ip (Octets assertedScope)
                in if result' then result' else isInscopeIP_other targetIP result' rest))
      | _ \<Rightarrow> (if result then result else isInscopeIP_other targetIP result rest))"

definition isInscopeIP :: "IP \<Rightarrow> parsed list \<Rightarrow> int \<Rightarrow> bool" where
  "isInscopeIP targetIP inscopeScopes explicitLevel =
     (if explicitLevel = 3 then isInscopeIP_level3 targetIP False inscopeScopes
      else isInscopeIP_other targetIP False inscopeScopes)"

text \<open>The loop of \<open>isInscope\<close> for a \<open>*url.URL\<close> target.\<close>

fun isInscope_URL :: "stdlib \<Rightarrow> URL \<Rightarrow> int \<Rightarrow> bool \<Rightarrow> parsed list \<Rightarrow> bool" where
  "isInscope_URL lib assertedTarget explicitLevel result [] = False"
| "isInscope_URL lib assertedTarget explicitLevel result (s # rest) =
     (let result' =
        (case s of
           StringV assertedScope \<Rightarrow>
             (if explicitLevel = 1
              then HasSuffix (removePortFromHost assertedTarget) assertedScope
              else if explicitLevel = 2 \<or> explicitLevel = 3
              then removePortFromHost assertedTarget = assertedScope
              else result)
         | WildcardScopeV assertedScope \<Rightarrow>
             (if explicitLevel \<noteq> 3
              then MatchString assertedScope (removePortFromHost assertedTarget)
              else result)
         | RegexpV assertedScope \<Rightarrow>
             MatchString assertedScope (url_String lib assertedTarget)
         | _ \<Rightarrow> result)
      in if result' then result'
         else isInscope_URL lib assertedTarget explicitLevel result' rest)"

definition isInscope :: "stdlib \<Rightarrow> parsed list \<Rightarrow> parsed \<Rightarrow> int \<Rightarrow> bool" where
  "isInscope lib inscopeScopes target explicitLevel =
     (case target of
        IPV assertedTarget \<Rightarrow> isInscopeIP assertedTarget inscopeScopes explicitLevel
      | URLWithIPAddressHostV assertedTarget \<Rightarrow>
          isInscopeIP (IPhost assertedTarget) inscopeScopes explicitLevel
      | URLV assertedTarget \<Rightarrow>
          isInscope_URL lib assertedTarget explicitLevel False inscopeScopes
      | _ \<Rightarrow> False)"

definition isOutOfScope :: "stdlib \<Rightarrow> parsed list \<Rightarrow> parsed \<Rightarrow> int \<Rightarrow> bool" where
  "isOutOfScope lib noscopeScopes target explicitLevel =
     isInscope lib noscopeScopes target explicitLevel"

text \<open>\<open>parseScopes\<close> returns the pair \<open>(isInsideScope, isUnsure)\<close>.\<close>

definition parseScopes ::
  "stdlib \<Rightarrow> parsed list \<Rightarrow> parsed list \<Rightarrow> parsed \<Rightarrow> int \<Rightarrow> int \<Rightarrow> bool \<Rightarrow> bool \<times> bool" where
  "parseScopes lib inscopeScopes noscopeScopes target inscopeExplicitLevel
       noscopeExplicitLevel includeUnsure =
     (let targetIsOutOfScope = isOutOfScope lib noscopeScopes target noscopeExplicitLevel
      in if \<not> targetIsOutOfScope
         then (let targetIsInscope = isInscope lib inscopeScopes target inscopeExplicitLevel
               in if targetIsInscope then (True, False)
                  else if includeUnsure \<and> \<not> targetIsInscope then (True, True)
                  else (False, False))
         else (False, False))"

section \<open>The octet-range parser and the line classifier\<close>

subsection \<open>More of package strings, and strconv.Atoi\<close>

text \<open>
  The separators and the replaced text are one byte long at every call site of the
  program, so \<open>Split\<close>, \<open>SplitN\<close>, \<open>Count\<close> and \<open>Replace\<close> take a character.
  \<open>SplitN\<close> is only called with \<open>n = 2\<close>.
\<close>

fun Contains :: "string \<Rightarrow> string \<Rightarrow> bool" where
  "Contains [] sub = (sub = [])"
| "Contains (c # cs) sub = (HasPrefix (c # cs) sub \<or> Contains cs sub)"

definition Count :: "string \<Rightarrow> char \<Rightarrow> nat" where
  "Count s c = length (filter (\<lambda>x. x = c) s)"

definition ContainsAny :: "string \<Rightarrow> string \<Rightarrow> bool" where
  "ContainsAny s chars = list_ex (\<lambda>c. List.member chars c) s"

fun Split :: "string \<Rightarrow> char \<Rightarrow> string list" where
  "Split [] sep = [[]]"
| "Split (c # cs) sep =
     (if c = sep then [] # Split cs sep
      else (case Split cs sep of p # ps \<Rightarrow> (c # p) # ps | [] \<Rightarrow> [[c]]))"

definition SplitN2 :: "string \<Rightarrow> char \<Rightarrow> string list" where
  "SplitN2 s sep =
     (if List.member s sep
      then [takeWhile (\<lambda>x. x \<noteq> sep) s, tl (dropWhile (\<lambda>x. x \<noteq> sep) s)]
      else [s])"

definition Replace :: "string \<Rightarrow> char \<Rightarrow> string \<Rightarrow> string" where
  "Replace s old new = concat (map (\<lambda>c. if c = old then new else [c]) s)"

text \<open>
  \<open>TrimSpace\<close> removes the leading and then the trailing white space of Unicode
  (\<open>unicode.IsSpace\<close>). A Go string is a byte sequence, so a white-space character is the
  bytes of its UTF-8 encoding: one of the six ASCII bytes (\<open>isSpace\<close>), the two bytes of
  U+0085 or U+00A0 (\<open>isSpace2\<close>), or the three bytes of U+1680, U+2000 to U+200A,
  U+2028, U+2029, U+202F, U+205F or U+3000 (\<open>isSpace3\<close>). Go decodes a character at the
  start, and the last character at the end, as one of these exactly when the text
  begins, respectively ends, with these bytes. \<open>TrimRightSpace\<close> works on the reversed
  text, so its first byte is the last byte of the text.
\<close>

definition isSpace :: "char \<Rightarrow> bool" where
  "isSpace c = List.member [9, 10, 11, 12, 13, 32 :: nat] (of_char c)"

definition isSpace2 :: "char \<Rightarrow> char \<Rightarrow> bool" where
  "isSpace2 a b =
     ((of_char a :: nat) = 194 \<and> ((of_char b :: nat) = 133 \<or> (of_char b :: nat) = 160))"

definition isSpace3 :: "char \<Rightarrow> char \<Rightarrow> char \<Rightarrow> bool" where
  "isSpace3 a b c =
     (((of_char a :: nat) = 225 \<and> (of_char b :: nat) = 154 \<and> (of_char c :: nat) = 128)
      \<or> ((of_char a :: nat) = 226 \<and> (of_char b :: nat) = 128
          \<and> ((128 \<le> (of_char c :: nat) \<and> (of_char c :: nat) \<le> 138)
             \<or> (of_char c :: nat) = 168 \<or> (of_char c :: nat) = 169
             \<or> (of_char c :: nat) = 175))
      \<or> ((of_char a :: nat) = 226 \<and> (of_char b :: nat) = 129 \<and> (of_char c :: nat) = 159)
      \<or> ((of_char a :: nat) = 227 \<and> (of_char b :: nat) = 128 \<and> (of_char c :: nat) = 128))"

fun TrimLeftSpace :: "string \<Rightarrow> string" where
  "TrimLeftSpace (a # b # c # rest) =
     (if isSpace a then TrimLeftSpace (b # c # rest)
      else if isSpace2 a b then TrimLeftSpace (c # rest)
      else if isSpace3 a b c then TrimLeftSpace rest
      else a # b # c # rest)"
| "TrimLeftSpace [a, b] =
     (if isSpace a then TrimLeftSpace [b]
      else if isSpace2 a b then []
      else [a, b])"
| "TrimLeftSpace [a] = (if isSpace a then [] else [a])"
| "TrimLeftSpace [] = []"

fun TrimRightSpace :: "string \<Rightarrow> string" where
  "TrimRightSpace (c # b # a # rest) =
     (if isSpace c then TrimRightSpace (b # a # rest)
      else if isSpace2 b c then TrimRightSpace (a # rest)
      else if isSpace3 a b c then TrimRightSpace rest
      else c # b # a # rest)"
| "TrimRightSpace [b, a] =
     (if isSpace b then TrimRightSpace [a]
      else if isSpace2 a b then []
      else [b, a])"
| "TrimRightSpace [a] = (if isSpace a then [] else [a])"
| "TrimRightSpace [] = []"

definition TrimSpace :: "string \<Rightarrow> string" where
  "TrimSpace s = rev (TrimRightSpace (rev (TrimLeftSpace s)))"

fun digits_value :: "string \<Rightarrow> int \<Rightarrow> int" where
  "digits_value [] n = n"
| "digits_value (ch # s) n = digits_value s (n * 10 + (int (of_char ch) - 48))"

text \<open>\<open>Atoi\<close> on a 64-bit platform; \<open>None\<close> is a returned error.\<close>

definition Atoi :: "string \<Rightarrow> int option" where
  "Atoi s0 =
     (case s0 of
        [] \<Rightarrow> None
      | c # cs \<Rightarrow>
          (let s = (if c = CHR ''-'' \<or> c = CHR ''+'' then cs else s0)
           in if s = [] \<or> \<not> list_all isDigit s then None
              else (let n = digits_value s 0
                    in if c = CHR ''-''
                       then (if n > 9223372036854775808 then None else Some (- n))
                       else (if n > 9223372036854775807 then None else Some n))))"

subsection \<open>Errors\<close>

datatype error =
    ErrInvalidFormat
  | ErrInvalidNmapFormat
  | ErrInvalidOctetRange
  | ErrOctetRangeLowHigh
  | ErrInvalidOctetValue
  | ErrNoInscopes
  | PanicSliceBounds
  | PanicIndexOutOfRange

subsection \<open>parseNmapOctet and parseNmapIPRange\<close>

text \<open>
  The loop \<open>for v := low; v <= high; v++\<close> runs on \<open>uint8\<close>: \<open>v++\<close> wraps from 255 to 0.
  A run that never leaves the loop is the value \<open>None\<close>.
\<close>

partial_function (option) octet_range_loop :: "byte \<Rightarrow> byte \<Rightarrow> byte list \<Rightarrow> byte list option" where
  "octet_range_loop v high vals =
     (if v \<le> high then octet_range_loop (v + 1) high (vals @ [v]) else Some vals)"

declare octet_range_loop.simps [code]

definition parseNmapBound :: "string \<Rightarrow> byte \<Rightarrow> error + byte" where
  "parseNmapBound b dflt =
     (if b \<noteq> []
      then (case Atoi b of
              None \<Rightarrow> Inl ErrInvalidOctetRange
            | Some l \<Rightarrow> (if l < 0 \<or> l > 255 then Inl ErrInvalidOctetRange
                         else Inr (word_of_int l)))
      else Inr dflt)"

definition parseNmapSegment :: "string \<Rightarrow> byte list \<Rightarrow> (error + byte list) option" where
  "parseNmapSegment seg0 vals =
     (let seg1 = TrimSpace seg0;
          seg = (if seg1 = ''-'' then ''0-255'' else seg1)
      in if Contains seg ''-''
         then (let bounds = SplitN2 seg (CHR ''-'')
               in case parseNmapBound (bounds ! 0) 0 of
                    Inl e \<Rightarrow> Some (Inl e)
                  | Inr low \<Rightarrow>
                      (case parseNmapBound (bounds ! 1) 255 of
                         Inl e \<Rightarrow> Some (Inl e)
                       | Inr high \<Rightarrow>
                           (if low > high then Some (Inl ErrOctetRangeLowHigh)
                            else map_option Inr (octet_range_loop low high vals))))
         else (case Atoi seg of
                 None \<Rightarrow> Some (Inl ErrInvalidOctetValue)
               | Some v \<Rightarrow> (if v < 0 \<or> v > 255 then Some (Inl ErrInvalidOctetValue)
                            else Some (Inr (vals @ [word_of_int v])))))"

fun parseNmapOctet_segs :: "string list \<Rightarrow> byte list \<Rightarrow> (error + byte list) option" where
  "parseNmapOctet_segs [] vals = Some (Inr vals)"
| "parseNmapOctet_segs (seg # segs) vals =
     (case parseNmapSegment seg vals of
        None \<Rightarrow> None
      | Some (Inl e) \<Rightarrow> Some (Inl e)
      | Some (Inr vals') \<Rightarrow> parseNmapOctet_segs segs vals')"

definition parseNmapOctet :: "string \<Rightarrow> (error + byte list) option" where
  "parseNmapOctet part = parseNmapOctet_segs (Split part (CHR '','')) []"

fun parseNmapIPRange_parts :: "string list \<Rightarrow> byte list list \<Rightarrow> (error + byte list list) option" where
  "parseNmapIPRange_parts [] octets = Some (Inr octets)"
| "parseNmapIPRange_parts (part # parts) octets =
     (case parseNmapOctet part of
        None \<Rightarrow> None
      | Some (Inl e) \<Rightarrow> Some (Inl e)
      | Some (Inr vals) \<Rightarrow> parseNmapIPRange_parts parts (octets @ [vals]))"

definition parseNmapIPRange :: "string \<Rightarrow> (error + NmapIPRange) option" where
  "parseNmapIPRange line =
     (let parts = Split line (CHR ''.'')
      in if length parts \<noteq> 4 then Some (Inl ErrInvalidNmapFormat)
         else (case parseNmapIPRange_parts parts [] of
                 None \<Rightarrow> None
               | Some (Inl e) \<Rightarrow> Some (Inl e)
               | Some (Inr octets) \<Rightarrow> Some (Inr \<lparr>Octets = octets, Raw = line\<rparr>)))"

definition isNmapIPRange :: "string \<Rightarrow> bool" where
  "isNmapIPRange line = (if Count line (CHR ''.'') \<noteq> 3 then False else ContainsAny line ''-,'')"

subsection \<open>parseLine\<close>

text \<open>
  The warnings that \<open>parseLine\<close> and \<open>isAndroidPackageName\<close> print are output only and
  are left out; the global \<open>chainMode\<close> is a parameter where it decides a branch.
\<close>

definition parseAsURLFailed :: "URL option \<Rightarrow> bool" where
  "parseAsURLFailed r = (case r of None \<Rightarrow> True | Some parsedURL \<Rightarrow> Host parsedURL = [] \<or> Opaque parsedURL \<noteq> [])"

definition parseLine_URL :: "stdlib \<Rightarrow> string \<Rightarrow> error + URL" where
  "parseLine_URL lib line =
     (let r1 = url_Parse lib line
      in case (if parseAsURLFailed r1 then None else r1) of
           Some parsedURL \<Rightarrow> Inr parsedURL
         | None \<Rightarrow>
             (if \<not> HasPrefix line ''https://''
              then (let r2 = url_Parse lib (''https://'' @ line)
                    in case (if parseAsURLFailed r2 then None else r2) of
                         Some parsedURL \<Rightarrow> Inr parsedURL
                       | None \<Rightarrow> Inl ErrInvalidFormat)
              else Inl ErrInvalidFormat))"

definition parseLine_IP_URL :: "stdlib \<Rightarrow> string \<Rightarrow> bool \<Rightarrow> error + parsed" where
  "parseLine_IP_URL lib line isScope =
     (case net_ParseIP lib line of
        Some ip \<Rightarrow> Inr (IPV ip)
      | None \<Rightarrow>
          (case parseLine_URL lib line of
             Inl e \<Rightarrow> Inl e
           | Inr parsedURL \<Rightarrow>
               (if \<not> isScope
                then (case net_ParseIP lib (removePortFromHost parsedURL) of
                        Some ip \<Rightarrow> Inr (URLWithIPAddressHostV \<lparr>rawURL = line, IPhost = ip\<rparr>)
                      | None \<Rightarrow> Inr (URLV parsedURL))
                else (if Path parsedURL = [] \<or> Path parsedURL = ''/''
                      then Inr (StringV (removePortFromHost parsedURL))
                      else Inl ErrInvalidFormat))))"

definition parseLine :: "stdlib \<Rightarrow> string \<Rightarrow> bool \<Rightarrow> (error + parsed) option" where
  "parseLine lib line isScope =
     (if isScope
      then (if HasPrefix line ''^'' \<and> HasSuffix line ''$''
            then (case regexp_Compile lib line of
                    None \<Rightarrow> Some (Inl ErrInvalidFormat)
                  | Some scopeRegex \<Rightarrow> Some (Inr (RegexpV scopeRegex)))
            else if Contains line ''*''
            then (let rawRegex0 = Replace line (CHR ''.'') [CHR 0x5C, CHR ''.''];
                      rawRegex = Replace rawRegex0 (CHR ''*'') ''.*''
                  in case regexp_Compile lib rawRegex of
                       None \<Rightarrow> Some (Inl ErrInvalidFormat)
                     | Some scopeRegex \<Rightarrow> Some (Inr (WildcardScopeV scopeRegex)))
            else if isNmapIPRange line
            then (case parseNmapIPRange line of
                    None \<Rightarrow> None
                  | Some (Inl e) \<Rightarrow> Some (Inl ErrInvalidFormat)
                  | Some (Inr nmapRange) \<Rightarrow> Some (Inr (NmapIPRangeV nmapRange)))
            else (case net_ParseCIDR lib line of
                    Some ipnet \<Rightarrow> Some (Inr (IPNetV ipnet))
                  | None \<Rightarrow> Some (parseLine_IP_URL lib line isScope)))
      else Some (parseLine_IP_URL lib line isScope))"

section \<open>The misconfiguration detector\<close>

definition isAndroidPackageName :: "stdlib \<Rightarrow> bool \<Rightarrow> string \<Rightarrow> bool \<Rightarrow> (error + bool) option" where
  "isAndroidPackageName lib chainMode rawScope privateTLDsAreEnabled =
     (if privateTLDsAreEnabled then Some (Inr privateTLDsAreEnabled)
      else (case parseLine lib rawScope True of
              None \<Rightarrow> None
            | Some r \<Rightarrow>
                (if isl r \<and> \<not> chainMode then Some (Inr False)
                 else (case r of
                         Inr (URLV inscope) \<Rightarrow>
                           (let portlessHostofCurrentTarget = removePortFromHost inscope;
                                scopeHasValidTLD =
                                  snd (publicsuffix_PublicSuffix lib portlessHostofCurrentTarget)
                            in if \<not> chainMode \<and> length rawScope < 4 then Some (Inl PanicSliceBounds)
                               else if \<not> scopeHasValidTLD \<and> Host inscope \<noteq> []
                               then Some (Inr True)
                               else Some (Inr False))
                       | _ \<Rightarrow> Some (Inr False)))))"

record Scope =
  Scope :: string
  Scope_type :: string

record Program =
  In_scopes :: "Scope list"
  Out_of_scopes :: "Scope list"
  Name :: string

record Firebounty =
  Pgms :: "Program list"

text \<open>The two loops of \<open>getCompanyScopes\<close> share this body.\<close>

fun collectScopes ::
  "stdlib \<Rightarrow> bool \<Rightarrow> bool \<Rightarrow> Scope list \<Rightarrow> string list \<Rightarrow> (error + string list) option" where
  "collectScopes lib chainMode privateTLDsAreEnabled [] lines = Some (Inr lines)"
| "collectScopes lib chainMode privateTLDsAreEnabled (s # rest) lines =
     (if Scope_type s = ''web_application'' \<and> Scope s \<noteq> []
      then (case isAndroidPackageName lib chainMode (Scope s) privateTLDsAreEnabled of
              None \<Rightarrow> None
            | Some (Inl e) \<Rightarrow> Some (Inl e)
            | Some (Inr flagged) \<Rightarrow>
                (if \<not> flagged
                 then collectScopes lib chainMode privateTLDsAreEnabled rest (lines @ [Scope s])
                 else collectScopes lib chainMode privateTLDsAreEnabled rest lines))
      else collectScopes lib chainMode privateTLDsAreEnabled rest lines)"

text \<open>
  \<open>getCompanyScopes\<close> without the report it prints when \<open>chainMode\<close> is off. An index
  outside \<open>Pgms\<close> is Go's run-time panic.
\<close>

definition getCompanyScopes ::
  "stdlib \<Rightarrow> bool \<Rightarrow> Firebounty \<Rightarrow> int \<Rightarrow> bool \<Rightarrow> (error + string list \<times> string list) option" where
  "getCompanyScopes lib chainMode firebountyJSON companyIndex privateTLDsAreEnabled =
     (if companyIndex < 0 \<or> companyIndex \<ge> int (length (Pgms firebountyJSON))
      then Some (Inl PanicIndexOutOfRange)
      else (let program = Pgms firebountyJSON ! nat companyIndex
            in case collectScopes lib chainMode privateTLDsAreEnabled (In_scopes program) [] of
                 None \<Rightarrow> None
               | Some (Inl e) \<Rightarrow> Some (Inl e)
               | Some (Inr inscopeLines) \<Rightarrow>
                   (if length inscopeLines = 0 then Some (Inl ErrNoInscopes)
                    else (case collectScopes lib chainMode privateTLDsAreEnabled
                                 (Out_of_scopes program) [] of
                            None \<Rightarrow> None
                          | Some (Inl e) \<Rightarrow> Some (Inl e)
                          | Some (Inr noscopeLines) \<Rightarrow>
                              Some (Inr (inscopeLines, noscopeLines))))))"

section \<open>A stand-in for the library, used by the worked examples\<close>

text \<open>
  The worked examples at the end need values for the library parameters. Each function
  below follows the Go function it stands for on a stated small class of inputs and
  reports an error on every other input; the examples stay inside these classes.
  \<^item> \<open>example_ParseIP\<close>: \<open>net.ParseIP\<close> on dotted-quad IPv4 text (the result is the
    16-byte form); every other text is rejected, IPv6 text included.
  \<^item> \<open>example_ParseCIDR\<close>: \<open>net.ParseCIDR\<close> on \<open>a.b.c.d/n\<close>.
  \<^item> \<open>example_url_Parse\<close> and \<open>example_url_String\<close>: \<open>url.Parse\<close> and \<open>URL.String\<close> on
    text made of letters, digits and the bytes \<open>- . _ ~ : /\<close> (no query, fragment,
    user information, escapes or brackets).
  \<^item> \<open>example_PublicSuffix\<close>: the suffix list reduced to \<open>com\<close>, \<open>org\<close> and \<open>net\<close>.
  \<^item> \<open>example_Compile\<close>: \<open>regexp.Compile\<close> on three expressions, each with the
    predicate that Go's unanchored \<open>MatchString\<close> computes for it.
\<close>

definition isLetter :: "char \<Rightarrow> bool" where
  "isLetter c = ((65 \<le> (of_char c :: nat) \<and> (of_char c :: nat) \<le> 90)
                 \<or> (97 \<le> (of_char c :: nat) \<and> (of_char c :: nat) \<le> 122))"

definition toLower :: "char \<Rightarrow> char" where
  "toLower c = (if 65 \<le> (of_char c :: nat) \<and> (of_char c :: nat) \<le> 90
                then char_of ((of_char c :: nat) + 32) else c)"

definition parseIPv4Field :: "string \<Rightarrow> byte option" where
  "parseIPv4Field f =
     (if f = [] \<or> length f > 3 \<or> \<not> list_all isDigit f then None
      else if length f > 1 \<and> hd f = CHR ''0'' then None
      else if digits_value f 0 > 255 then None
      else Some (word_of_int (digits_value f 0)))"

definition parseIPv4 :: "string \<Rightarrow> byte list option" where
  "parseIPv4 s =
     (case map parseIPv4Field (Split s (CHR ''.'')) of
        [Some a, Some b, Some c, Some d] \<Rightarrow> Some [a, b, c, d]
      | _ \<Rightarrow> None)"

definition example_ParseIP :: "string \<Rightarrow> IP option" where
  "example_ParseIP s = map_option (\<lambda>ip4. v4InV6Prefix @ ip4) (parseIPv4 s)"

fun CIDRMask :: "nat \<Rightarrow> nat \<Rightarrow> byte list" where
  "CIDRMask n 0 = []"
| "CIDRMask n (Suc l) =
     (if n \<ge> 8 then 255 # CIDRMask (n - 8) l
      else not (drop_bit n (255 :: byte)) # CIDRMask 0 l)"

definition example_ParseCIDR :: "string \<Rightarrow> IPNet option" where
  "example_ParseCIDR s =
     (if \<not> List.member s (CHR ''/'') then None
      else (let addr = takeWhile (\<lambda>c. c \<noteq> CHR ''/'') s;
                mask = tl (dropWhile (\<lambda>c. c \<noteq> CHR ''/'') s)
            in case parseIPv4 addr of
                 None \<Rightarrow> None
               | Some ip4 \<Rightarrow>
                   (if mask = [] \<or> \<not> list_all isDigit mask \<or> digits_value mask 0 > 32 then None
                    else (let m = CIDRMask (nat (digits_value mask 0)) 4
                          in Some \<lparr>IPNet_IP = map2 and ip4 m, IPNet_Mask = m\<rparr>))))"

definition plainURLByte :: "char \<Rightarrow> bool" where
  "plainURLByte c = (isLetter c \<or> isDigit c \<or> List.member ''-._~:/'' c)"

fun getScheme_loop :: "string \<Rightarrow> string \<Rightarrow> string \<Rightarrow> (string \<times> string) option" where
  "getScheme_loop seen [] rawurl = Some ([], rawurl)"
| "getScheme_loop seen (c # cs) rawurl =
     (if isLetter c then getScheme_loop (seen @ [c]) cs rawurl
      else if isDigit c \<or> c = CHR ''+'' \<or> c = CHR ''-'' \<or> c = CHR ''.''
      then (if seen = [] then Some ([], rawurl) else getScheme_loop (seen @ [c]) cs rawurl)
      else if c = CHR '':''
      then (if seen = [] then None else Some (seen, cs))
      else Some ([], rawurl))"

definition example_url_Parse :: "string \<Rightarrow> URL option" where
  "example_url_Parse rawurl =
     (if \<not> list_all plainURLByte rawurl then None
      else (case getScheme_loop [] rawurl rawurl of
              None \<Rightarrow> None
            | Some (scheme0, rest) \<Rightarrow>
                (let scheme = map toLower scheme0
                 in if \<not> HasPrefix rest ''/'' \<and> scheme \<noteq> []
                    then Some \<lparr>Scheme = scheme, Opaque = rest, Host = [], Path = [],
                               OmitHost = False, RawQuery = [], Fragment = []\<rparr>
                    else if \<not> HasPrefix rest ''/''
                            \<and> List.member (takeWhile (\<lambda>c. c \<noteq> CHR ''/'') rest) (CHR '':'')
                    then None
                    else if (scheme \<noteq> [] \<or> \<not> HasPrefix rest ''///'') \<and> HasPrefix rest ''//''
                    then (let authority = takeWhile (\<lambda>c. c \<noteq> CHR ''/'') (drop 2 rest);
                              rest' = dropWhile (\<lambda>c. c \<noteq> CHR ''/'') (drop 2 rest)
                          in if (case LastIndexByte authority (CHR '':'') of
                                   None \<Rightarrow> False
                                 | Some i \<Rightarrow> \<not> validOptionalPort (drop i authority))
                             then None
                             else Some \<lparr>Scheme = scheme, Opaque = [], Host = authority,
                                        Path = rest', OmitHost = False, RawQuery = [],
                                        Fragment = []\<rparr>)
                    else Some \<lparr>Scheme = scheme, Opaque = [], Host = [], Path = rest,
                               OmitHost = (scheme \<noteq> [] \<and> HasPrefix rest ''/''),
                               RawQuery = [], Fragment = []\<rparr>)))"

definition example_url_String :: "URL \<Rightarrow> string" where
  "example_url_String u =
     (let b1 = (if Scheme u \<noteq> [] then Scheme u @ '':'' else []);
          b2 = (if Opaque u \<noteq> [] then b1 @ Opaque u
                else (let b3 = (if Scheme u \<noteq> [] \<or> Host u \<noteq> []
                                then (if OmitHost u \<and> Host u = [] then b1
                                      else b1 @ (if Host u \<noteq> [] \<or> Path u \<noteq> [] then ''//'' else [])
                                              @ Host u)
                                else b1);
                          b4 = (if Path u \<noteq> [] \<and> hd (Path u) \<noteq> CHR ''/'' \<and> Host u \<noteq> []
                                then b3 @ ''/'' else b3);
                          b5 = (if b4 = [] \<and> List.member (takeWhile (\<lambda>c. c \<noteq> CHR ''/'') (Path u))
                                                 (CHR '':'')
                                then ''./'' else b4)
                      in b5 @ Path u));
          b6 = (if RawQuery u \<noteq> [] then b2 @ ''?'' @ RawQuery u else b2)
      in if Fragment u \<noteq> [] then b6 @ ''#'' @ Fragment u else b6)"

definition example_PublicSuffix :: "string \<Rightarrow> string \<times> bool" where
  "example_PublicSuffix domain =
     (let tld = last (Split domain (CHR ''.''))
      in (tld, List.member [''com'', ''org'', ''net''] tld))"

definition re_exact_host :: string where
  "re_exact_host = ''^example'' @ [CHR 0x5C] @ ''.com$''"

definition re_exact_url :: string where
  "re_exact_url = ''^https://example'' @ [CHR 0x5C] @ ''.com$''"

definition re_wildcard :: string where
  "re_wildcard = ''.*'' @ [CHR 0x5C] @ ''.example'' @ [CHR 0x5C] @ ''.com''"

definition example_Compile :: "string \<Rightarrow> Regexp option" where
  "example_Compile expr =
     (if expr = re_exact_host then Some (Regexp (\<lambda>s. s = ''example.com''))
      else if expr = re_exact_url then Some (Regexp (\<lambda>s. s = ''https://example.com''))
      else if expr = re_wildcard then Some (Regexp (\<lambda>s. Contains s ''.example.com''))
      else None)"

definition example_lib :: stdlib where
  "example_lib =
     \<lparr>regexp_Compile = example_Compile,
      net_ParseIP = example_ParseIP,
      net_ParseCIDR = example_ParseCIDR,
      url_Parse = example_url_Parse,
      url_String = example_url_String,
      publicsuffix_PublicSuffix = example_PublicSuffix\<rparr>"

subsection \<open>Values used by the worked examples\<close>

definition internal_example_com :: URL where
  "internal_example_com =
     \<lparr>Scheme = ''https'', Opaque = [], Host = ''internal.example.com'', Path = [],
      OmitHost = False, RawQuery = [], Fragment = []\<rparr>"


definition a_b_example_com_8080 :: URL where
  "a_b_example_com_8080 =
     \<lparr>Scheme = ''https'', Opaque = [], Host = ''a.b.example.com:8080'', Path = ''/x'',
      OmitHost = False, RawQuery = [], Fragment = []\<rparr>"

definition api_example_com :: URL where
  "api_example_com =
     \<lparr>Scheme = ''https'', Opaque = [], Host = ''api.example.com'', Path = [],
      OmitHost = False, RawQuery = [], Fragment = []\<rparr>"

definition exact_host_regexp :: Regexp where
  "exact_host_regexp = Regexp (\<lambda>s. s = ''example.com'')"

definition exact_url_regexp :: Regexp where
  "exact_url_regexp = Regexp (\<lambda>s. s = ''https://example.com'')"

definition wildcard_example_com :: Regexp where
  "wildcard_example_com = Regexp (\<lambda>s. Contains s ''.example.com'')"

definition ip_10_0_0_5 :: IP where
  "ip_10_0_0_5 = [0, 0, 0, 0, 0, 0, 0, 0, 0, 0, 255, 255, 10, 0, 0, 5]"

definition ip6_2001_db8_1 :: IP where
  "ip6_2001_db8_1 = [32, 1, 13, 184, 0, 0, 0, 0, 0, 0, 0, 0, 0, 0, 0, 1]"

definition ip_10_0_7_10 :: IP where
  "ip_10_0_7_10 = [0, 0, 0, 0, 0, 0, 0, 0, 0, 0, 255, 255, 10, 0, 7, 10]"

definition ip_10_0_7_11 :: IP where
  "ip_10_0_7_11 = [0, 0, 0, 0, 0, 0, 0, 0, 0, 0, 255, 255, 10, 0, 7, 11]"

definition net_10_0_0_0_24 :: IPNet where
  "net_10_0_0_0_24 = \<lparr>IPNet_IP = [10, 0, 0, 0], IPNet_Mask = [255, 255, 255, 0]\<rparr>"

definition nmap_10_0_0to7_5or10 :: NmapIPRange where
  "nmap_10_0_0to7_5or10 =
     \<lparr>Octets = [[10], [0], [0, 1, 2, 3, 4, 5, 6, 7], [5, 10]], Raw = ''10.0.0-7.5,10''\<rparr>"

text \<open>
  The bounds that a range segment \<open>lo-hi\<close> written with digits denotes: a missing low
  bound is 0, a missing high bound is 255.
\<close>

definition range_low :: "string \<Rightarrow> int" where
  "range_low lo = (if lo = [] then 0 else digits_value lo 0)"

definition range_high :: "string \<Rightarrow> int" where
  "range_high hi = (if hi = [] then 255 else digits_value hi 0)"

definition example_db :: Firebounty where
  "example_db =
     \<lparr>Pgms = [\<lparr>In_scopes = [\<lparr>Scope = ''example.com'', Scope_type = ''web_application''\<rparr>],
               Out_of_scopes = [],
               Name = ''Example''\<rparr>]\<rparr>"

definition package_db :: Firebounty where
  "package_db =
     \<lparr>Pgms = [\<lparr>In_scopes = [\<lparr>Scope = ''com.my.businness.gatewayportal'',
                             Scope_type = ''web_application''\<rparr>],
               Out_of_scopes = [],
               Name = ''Example''\<rparr>]\<rparr>"

section \<open>Properties of the scope matcher\<close>

subsection \<open>The loops as disjunctions over the rule set\<close>


lemma HasPrefix_iff_prefix: "HasPrefix s pre = prefix pre s"
  by (auto simp: HasPrefix_def prefix_def) (metis append_eq_conv_conj)

lemma octet_found_iff: "octet_found b vs = (b \<in> set vs)"
  by (induction vs) auto

lemma nmap_octets_match_iff:
  "nmap_octets_match is ip octs = (\<forall>i \<in> set is. ip ! i \<in> set (octs ! i))"
  by (induction "is") (auto simp: octet_found_iff)

lemma nmap_octets_match_4:
  "nmap_octets_match [0, 1, 2, 3] ip octs = (\<forall>i < 4. ip ! i \<in> set (octs ! i))"
proof -
  have "set [0, 1, 2, 3 :: nat] = {i. i < 4}" by auto
  then show ?thesis unfolding nmap_octets_match_iff by (metis mem_Collect_eq)
qed

lemma isInscopeIP_level3_iff:
  "isInscopeIP_level3 ip False scopes = (\<exists>a. IPV a \<in> set scopes \<and> IP_Equal a ip)"
  by (induction scopes) (auto split: parsed.splits)

lemma isInscopeIP_other_iff:
  "isInscopeIP_other ip False scopes =
     ((\<exists>a. IPV a \<in> set scopes \<and> IP_Equal a ip)
      \<or> (\<exists>n. IPNetV n \<in> set scopes \<and> IPNet_Contains n ip)
      \<or> (\<exists>r ip4. NmapIPRangeV r \<in> set scopes \<and> IP_To4 ip = Some ip4
            \<and> nmap_octets_match [0, 1, 2, 3] ip4 (Octets r)))"
  by (induction scopes) (auto split: parsed.splits option.splits simp: Let_def)

lemma isInscope_URL_iff:
  "isInscope_URL lib u lvl False scopes =
     ((\<exists>h. StringV h \<in> set scopes
           \<and> ((lvl = 1 \<and> HasSuffix (removePortFromHost u) h)
              \<or> ((lvl = 2 \<or> lvl = 3) \<and> removePortFromHost u = h)))
      \<or> (\<exists>w. WildcardScopeV w \<in> set scopes \<and> lvl \<noteq> 3
            \<and> MatchString w (removePortFromHost u))
      \<or> (\<exists>r. RegexpV r \<in> set scopes \<and> MatchString r (url_String lib u)))"
  by (induction scopes) (auto split: parsed.splits simp: Let_def)

lemma isInscope_set_cong:
  "set scopes = set scopes' \<Longrightarrow> isInscope lib scopes t lvl = isInscope lib scopes' t lvl"
  by (cases t) (simp_all add: isInscope_def isInscopeIP_def isInscopeIP_level3_iff
      isInscopeIP_other_iff isInscope_URL_iff)

lemma IP_Equal_same_length: "length a = length b \<Longrightarrow> IP_Equal a b = (a = b)"
  by (simp add: IP_Equal_def)

lemmas matcher_eval =
  isInscope_def isInscopeIP_def isOutOfScope_def parseScopes_def removePortFromHost_def
  URL_Port_def validOptionalPort_def isDigit_def HasSuffix_def HasPrefix_def
  IP_Equal_def IP_To4_def IPNet_Contains_def networkNumberAndMask_def v4InV6Prefix_def

subsection \<open>The decision\<close>

text \<open>
  C1. Whenever the target matches the out-of-scope rule set (at the out-of-scope level),
  \<open>parseScopes\<close> answers "not inside scope, not unsure", whatever the in-scope rule set,
  its level and the include-unsure flag are: the in-scope set has no influence then.
\<close>

theorem C1_out_of_scope_wins:
  "isInscope lib noscopeScopes target noscopeExplicitLevel \<Longrightarrow>
   parseScopes lib inscopeScopes noscopeScopes target inscopeExplicitLevel
     noscopeExplicitLevel includeUnsure = (False, False)"
  by (simp add: parseScopes_def isOutOfScope_def)

text \<open>
  The example of the specification: in-scope \<open>example.com\<close>, out-of-scope
  \<open>internal.example.com\<close>, target \<open>internal.example.com\<close>, level 1.
\<close>

theorem C1_out_of_scope_wins_witness:
  "isInscope example_lib [StringV ''internal.example.com''] (URLV internal_example_com) 1
   \<and> isInscope example_lib [StringV ''example.com''] (URLV internal_example_com) 1
   \<and> parseScopes example_lib [StringV ''example.com''] [StringV ''internal.example.com'']
        (URLV internal_example_com) 1 1 True = (False, False)"
proof -
  have out: "isInscope example_lib [StringV ''internal.example.com'']
               (URLV internal_example_com) 1"
    by (simp add: matcher_eval internal_example_com_def)
  have ins: "isInscope example_lib [StringV ''example.com''] (URLV internal_example_com) 1"
    by (simp add: matcher_eval internal_example_com_def)
  from C1_out_of_scope_wins [OF out] ins out show ?thesis by simp
qed

text \<open>
  C10. \<open>parseScopes\<close> never answers "outside scope and unsure"; without the
  include-unsure flag it never answers "unsure"; and every answer is one of excluded,
  inside and sure, or (only with the flag) inside and unsure.
\<close>

theorem C10_decision_outcomes:
  "parseScopes lib inscopeScopes noscopeScopes target inscopeExplicitLevel
     noscopeExplicitLevel includeUnsure \<noteq> (False, True)
   \<and> (\<not> includeUnsure \<longrightarrow>
        \<not> snd (parseScopes lib inscopeScopes noscopeScopes target inscopeExplicitLevel
                 noscopeExplicitLevel includeUnsure))
   \<and> (parseScopes lib inscopeScopes noscopeScopes target inscopeExplicitLevel
         noscopeExplicitLevel includeUnsure = (False, False)
      \<or> parseScopes lib inscopeScopes noscopeScopes target inscopeExplicitLevel
           noscopeExplicitLevel includeUnsure = (True, False)
      \<or> (includeUnsure
          \<and> parseScopes lib inscopeScopes noscopeScopes target inscopeExplicitLevel
               noscopeExplicitLevel includeUnsure = (True, True)))"
  by (simp add: parseScopes_def Let_def)

text \<open>A target that matches neither rule set, without the include-unsure flag.\<close>

theorem C10_decision_outcomes_witness:
  "\<not> False
   \<and> \<not> isInscope example_lib [StringV ''internal.example.com''] (URLV api_example_com) 3
   \<and> \<not> snd (parseScopes example_lib [StringV ''example.com'']
               [StringV ''internal.example.com''] (URLV api_example_com) 3 3 False)"
proof -
  have out: "\<not> isInscope example_lib [StringV ''internal.example.com'']
                 (URLV api_example_com) 3"
    by (simp add: matcher_eval api_example_com_def)
  from C10_decision_outcomes [of example_lib "[StringV ''example.com'']"
      "[StringV ''internal.example.com'']" "URLV api_example_com" 3 3 False] out
  show ?thesis by simp
qed

subsection \<open>Address targets\<close>

text \<open>
  C2. For a target that is an address, or a URL whose host is an address: at level 3 it
  matches the rule set iff some address rule is equal to it (\<open>IP.Equal\<close>; on two
  addresses of the same length this is equality of the bytes, see
  \<open>IP_Equal_same_length\<close>); at level 1 or 2 it matches iff some address rule is equal to
  it, or some CIDR rule contains it, or it has a 4-byte form (\<open>IP.To4\<close>) each of whose
  four bytes is among the values the octet-range rule allows at that position. An
  address without a 4-byte form, an IPv6 address, matches no octet-range rule.
\<close>

theorem C2_ip_target_matching:
  "target = IPV ip \<or> target = URLWithIPAddressHostV \<lparr>rawURL = raw, IPhost = ip\<rparr> \<Longrightarrow>
   (isInscope lib scopes target 3 = (\<exists>a. IPV a \<in> set scopes \<and> IP_Equal a ip))
   \<and> (lvl = 1 \<or> lvl = 2 \<longrightarrow>
        isInscope lib scopes target lvl =
          ((\<exists>a. IPV a \<in> set scopes \<and> IP_Equal a ip)
           \<or> (\<exists>n. IPNetV n \<in> set scopes \<and> IPNet_Contains n ip)
           \<or> (\<exists>r ip4. NmapIPRangeV r \<in> set scopes \<and> IP_To4 ip = Some ip4
                 \<and> (\<forall>i < 4. ip4 ! i \<in> set (Octets r ! i)))))
   \<and> (lvl = 1 \<or> lvl = 2 \<longrightarrow> IP_To4 ip = None \<longrightarrow>
        isInscope lib scopes target lvl =
          ((\<exists>a. IPV a \<in> set scopes \<and> IP_Equal a ip)
           \<or> (\<exists>n. IPNetV n \<in> set scopes \<and> IPNet_Contains n ip)))"
proof -
  assume "target = IPV ip \<or> target = URLWithIPAddressHostV \<lparr>rawURL = raw, IPhost = ip\<rparr>"
  then have ip: "isInscope lib scopes target l = isInscopeIP ip scopes l" for l
    by (auto simp: isInscope_def)
  have l3: "isInscopeIP ip scopes 3 = (\<exists>a. IPV a \<in> set scopes \<and> IP_Equal a ip)"
    by (simp add: isInscopeIP_def isInscopeIP_level3_iff)
  have l12: "isInscopeIP ip scopes lvl =
          ((\<exists>a. IPV a \<in> set scopes \<and> IP_Equal a ip)
           \<or> (\<exists>n. IPNetV n \<in> set scopes \<and> IPNet_Contains n ip)
           \<or> (\<exists>r ip4. NmapIPRangeV r \<in> set scopes \<and> IP_To4 ip = Some ip4
                 \<and> (\<forall>i < 4. ip4 ! i \<in> set (Octets r ! i))))"
    if "lvl = 1 \<or> lvl = 2"
    using that unfolding isInscopeIP_def isInscopeIP_other_iff nmap_octets_match_4 by auto
  show ?thesis
    unfolding ip l3 using l12 by auto
qed

text \<open>
  The rule \<open>10.0.0.0/24\<close> and the target \<open>10.0.0.5\<close>: a match at level 1, none at
  level 3. The octet-range rule \<open>10.0.0-7.5,10\<close> and the IPv6 target \<open>2001:db8::1\<close>,
  which has no 4-byte form: no match at level 2.
\<close>

theorem C2_ip_target_matching_witness:
  "(IPV ip_10_0_0_5 = IPV ip_10_0_0_5
      \<or> IPV ip_10_0_0_5 = URLWithIPAddressHostV \<lparr>rawURL = [], IPhost = ip_10_0_0_5\<rparr>)
   \<and> (1 = (1::int) \<or> 1 = (2::int))
   \<and> \<not> isInscope example_lib [IPNetV net_10_0_0_0_24, NmapIPRangeV nmap_10_0_0to7_5or10]
          (IPV ip_10_0_0_5) 3
   \<and> isInscope example_lib [IPNetV net_10_0_0_0_24, NmapIPRangeV nmap_10_0_0to7_5or10]
          (IPV ip_10_0_0_5) 1
   \<and> IPNet_Contains net_10_0_0_0_24 ip_10_0_0_5
   \<and> IP_To4 ip_10_0_0_5 = Some [10, 0, 0, 5]
   \<and> (2 = (1::int) \<or> 2 = (2::int))
   \<and> IP_To4 ip6_2001_db8_1 = None
   \<and> \<not> isInscope example_lib [NmapIPRangeV nmap_10_0_0to7_5or10] (IPV ip6_2001_db8_1) 2"
proof -
  have c: "IPNet_Contains net_10_0_0_0_24 ip_10_0_0_5"
    by (simp add: matcher_eval net_10_0_0_0_24_def ip_10_0_0_5_def)
  have t: "IP_To4 ip_10_0_0_5 = Some [10, 0, 0, 5]"
    by (simp add: matcher_eval ip_10_0_0_5_def)
  have t6: "IP_To4 ip6_2001_db8_1 = None"
    by (simp add: matcher_eval ip6_2001_db8_1_def)
  from C2_ip_target_matching [of "IPV ip_10_0_0_5" ip_10_0_0_5 "[]" example_lib
      "[IPNetV net_10_0_0_0_24, NmapIPRangeV nmap_10_0_0to7_5or10]" 1] c t
  have v4: "\<not> isInscope example_lib [IPNetV net_10_0_0_0_24, NmapIPRangeV nmap_10_0_0to7_5or10]
               (IPV ip_10_0_0_5) 3
            \<and> isInscope example_lib [IPNetV net_10_0_0_0_24, NmapIPRangeV nmap_10_0_0to7_5or10]
               (IPV ip_10_0_0_5) 1"
    by simp
  from C2_ip_target_matching [of "IPV ip6_2001_db8_1" ip6_2001_db8_1 "[]" example_lib
      "[NmapIPRangeV nmap_10_0_0to7_5or10]" 2] t6
  have v6: "\<not> isInscope example_lib [NmapIPRangeV nmap_10_0_0to7_5or10] (IPV ip6_2001_db8_1) 2"
    by simp
  from c t t6 v4 v6 show ?thesis by simp
qed

text \<open>
  The octet-range rule \<open>10.0.0-7.5,10\<close> matches \<open>10.0.7.10\<close> and not \<open>10.0.7.11\<close> at
  levels 1 and 2, as a bare address and as the host of a URL; at level 3 it matches
  neither.
\<close>

lemma octet_range_rule_example:
  "isInscope example_lib [NmapIPRangeV nmap_10_0_0to7_5or10] (IPV ip_10_0_7_10) 1
   \<and> isInscope example_lib [NmapIPRangeV nmap_10_0_0to7_5or10]
        (URLWithIPAddressHostV \<lparr>rawURL = ''https://10.0.7.10/x'', IPhost = ip_10_0_7_10\<rparr>) 2
   \<and> \<not> isInscope example_lib [NmapIPRangeV nmap_10_0_0to7_5or10] (IPV ip_10_0_7_11) 2
   \<and> \<not> isInscope example_lib [NmapIPRangeV nmap_10_0_0to7_5or10] (IPV ip_10_0_7_10) 3"
  by (simp add: matcher_eval nmap_10_0_0to7_5or10_def ip_10_0_7_10_def ip_10_0_7_11_def)

subsection \<open>Rule order\<close>

text \<open>
  C9. Two rule sets that are permutations of each other give the same answer for every
  target and every level: the match is a disjunction over the rules.
\<close>

theorem C9_rule_order_irrelevant:
  "mset rules = mset rules' \<Longrightarrow>
   isInscope lib rules target lvl = isInscope lib rules' target lvl"
  by (rule isInscope_set_cong) (rule mset_eq_setD)

theorem C9_rule_order_irrelevant_witness:
  "mset [StringV ''example.com'', IPNetV net_10_0_0_0_24, IPV ip_10_0_0_5]
     = mset [IPV ip_10_0_0_5, StringV ''example.com'', IPNetV net_10_0_0_0_24]
   \<and> isInscope example_lib [StringV ''example.com'', IPNetV net_10_0_0_0_24, IPV ip_10_0_0_5]
        (URLV internal_example_com) 1
   \<and> isInscope example_lib [IPV ip_10_0_0_5, StringV ''example.com'', IPNetV net_10_0_0_0_24]
        (URLV internal_example_com) 1"
proof -
  have p: "mset [StringV ''example.com'', IPNetV net_10_0_0_0_24, IPV ip_10_0_0_5]
     = mset [IPV ip_10_0_0_5, StringV ''example.com'', IPNetV net_10_0_0_0_24]"
    by simp
  have m: "isInscope example_lib [StringV ''example.com'', IPNetV net_10_0_0_0_24, IPV ip_10_0_0_5]
        (URLV internal_example_com) 1"
    by (simp add: matcher_eval internal_example_com_def)
  from C9_rule_order_irrelevant [OF p, of example_lib "URLV internal_example_com" 1] p m
  show ?thesis by simp
qed

section \<open>Properties of host-name matching and of the classifier\<close>

lemmas parse_eval =
  parseLine_def parseLine_IP_URL_def parseLine_URL_def parseAsURLFailed_def
  isNmapIPRange_def Count_def ContainsAny_def Replace_def
  example_lib_def example_Compile_def example_ParseIP_def example_ParseCIDR_def
  example_url_Parse_def example_url_String_def example_PublicSuffix_def
  parseIPv4_def parseIPv4Field_def plainURLByte_def isLetter_def toLower_def
  re_exact_host_def re_exact_url_def re_wildcard_def
  exact_host_regexp_def exact_url_regexp_def wildcard_example_com_def

subsection \<open>The host without its port\<close>

text \<open>
  \<open>removePortFromHost\<close> removes a numeric port together with its colon, and leaves a
  host without a colon as it is; the slice it takes is always inside the host.
\<close>

lemma LastIndexByte_None: "c \<notin> set s \<Longrightarrow> LastIndexByte s c = None"
  by (induction s) auto

lemma LastIndexByte_last: "c \<notin> set p \<Longrightarrow> LastIndexByte (h @ c # p) c = Some (length h)"
  by (induction h) (auto simp: LastIndexByte_None)

lemma isDigit_not_colon: "list_all isDigit p \<Longrightarrow> CHR '':'' \<notin> set p"
  by (induction p) (auto simp: isDigit_def)

lemma removePortFromHost_strips_port:
  "list_all isDigit p \<Longrightarrow> p \<noteq> [] \<Longrightarrow> Host u = h @ CHR '':'' # p \<Longrightarrow>
   URL_Port u = p \<and> removePortFromHost u = h"
  by (simp add: removePortFromHost_def URL_Port_def LastIndexByte_last isDigit_not_colon
      validOptionalPort_def)

lemma removePortFromHost_no_port:
  "CHR '':'' \<notin> set (Host u) \<Longrightarrow> removePortFromHost u = Host u"
  by (simp add: removePortFromHost_def URL_Port_def LastIndexByte_None)

lemma LastIndexByte_less: "LastIndexByte s c = Some i \<Longrightarrow> i < length s"
  by (induction s arbitrary: i) (auto split: option.splits if_splits)

lemma URL_Port_shorter: "URL_Port u \<noteq> [] \<Longrightarrow> length (URL_Port u) < length (Host u)"
  by (auto simp: URL_Port_def split: option.splits if_splits dest: LastIndexByte_less)

subsection \<open>Exact hosts\<close>



subsection \<open>Wildcard patterns\<close>



subsection \<open>Free-form patterns\<close>




subsection \<open>Classification of the specification's examples\<close>

lemma CIDRMask_24: "CIDRMask 24 4 = [255, 255, 255, 0]"
proof -
  have "CIDRMask 24 (Suc (Suc (Suc (Suc 0)))) = [255, 255, 255, 0]" by simp
  moreover have "(4 :: nat) = Suc (Suc (Suc (Suc 0)))" by simp
  ultimately show ?thesis by (simp only:)
qed

lemma classification_example_cidr:
  "parseLine example_lib ''10.0.0.0/24'' True = Some (Inr (IPNetV net_10_0_0_0_24))"
  by (simp add: parse_eval matcher_eval net_10_0_0_0_24_def CIDRMask_24)

lemma classification_examples:
  "parseLine example_lib ''10.0.0.5'' False = Some (Inr (IPV ip_10_0_0_5))"
  "parseLine example_lib ''https://10.0.7.10/x'' False
     = Some (Inr (URLWithIPAddressHostV \<lparr>rawURL = ''https://10.0.7.10/x'', IPhost = ip_10_0_7_10\<rparr>))"
  "parseLine example_lib ''example.com'' True = Some (Inr (StringV ''example.com''))"
  "parseLine example_lib ''example.com/admin'' True = Some (Inl ErrInvalidFormat)"
  "parseLine example_lib ''internal.example.com'' False = Some (Inr (URLV internal_example_com))"
  "parseLine example_lib ''https://a.b.example.com:8080/x'' False
     = Some (Inr (URLV a_b_example_com_8080))"
  by (simp_all add: parse_eval matcher_eval net_10_0_0_0_24_def ip_10_0_0_5_def ip_10_0_7_10_def
      internal_example_com_def a_b_example_com_8080_def)

section \<open>Properties of the octet-range parser\<close>

text \<open>
  The range loop returns the values from \<open>low\<close> to \<open>high\<close> when \<open>high\<close> is below 255,
  and never returns when \<open>high\<close> is 255: the counter wraps to 0 before it can exceed
  \<open>high\<close>.
\<close>

lemma byte_le_255: "(v :: byte) \<le> 255"
proof -
  have "(255 :: byte) = - 1" by simp
  then show ?thesis by (simp only: word_n1_ge)
qed

lemma octet_range_loop_Some_high: "octet_range_loop v high vals = Some r \<Longrightarrow> high \<noteq> 255"
proof (rule octet_range_loop.raw_induct [where P = "\<lambda>v high vals r. high \<noteq> 255"])
  fix loop :: "byte \<Rightarrow> byte \<Rightarrow> byte list \<Rightarrow> byte list option" and v high :: byte
    and vals va :: "byte list"
  assume ih: "\<And>v high vals r. loop v high vals = Some r \<Longrightarrow> high \<noteq> 255"
    and step: "(if v \<le> high then loop (v + 1) high (vals @ [v]) else Some vals) = Some va"
  show "high \<noteq> 255"
  proof (cases "v \<le> high")
    case True
    with step ih show ?thesis by simp
  next
    case False
    with byte_le_255 [of v] show ?thesis by auto
  qed
qed

lemma octet_range_loop_255: "octet_range_loop v 255 vals = None"
  using octet_range_loop_Some_high [of v 255 vals] by (cases "octet_range_loop v 255 vals") auto

lemma byte_succ_unat: "(low :: byte) < high \<Longrightarrow> unat (low + 1) = Suc (unat low)"
proof -
  assume "low < high"
  then have "unat low < unat high" by (simp add: word_less_nat_alt)
  moreover have "unat high < 2 ^ 8" using unsigned_less [of high, where 'a = nat] by simp
  ultimately have "unat low + unat (1 :: byte) < 2 ^ LENGTH(8)" by simp
  then have "unat (low + 1) = unat low + unat (1 :: byte)"
    by (simp only: unat_add_lem)
  then show ?thesis by simp
qed

lemma byte_succ_not_le: "(high :: byte) < 255 \<Longrightarrow> \<not> high + 1 \<le> high"
proof -
  assume "high < 255"
  then have "high \<noteq> - 1" by auto
  then show ?thesis by (simp add: inc_less_eq_self_iff_eq)
qed

lemma octet_range_loop_below_255:
  "high < 255 \<Longrightarrow> low \<le> high \<Longrightarrow>
   octet_range_loop low high vals = Some (vals @ map word_of_nat [unat low..<Suc (unat high)])"
proof (induction "unat high - unat low" arbitrary: low vals)
  case 0
  then have eq: "low = high" by (simp add: word_le_nat_alt word_unat_eq_iff)
  from 0 have n: "\<not> high + 1 \<le> high" by (simp add: byte_succ_not_le)
  show ?case
    unfolding eq using n
    by (subst octet_range_loop.simps, subst octet_range_loop.simps) simp
next
  case (Suc n)
  then have lt: "low < high" by (simp add: word_less_nat_alt)
  then have le: "low + 1 \<le> high" by (simp add: inc_le)
  from lt have u: "unat (low + 1) = Suc (unat low)" by (rule byte_succ_unat)
  from Suc u have "n = unat high - unat (low + 1)" by simp
  from Suc.hyps(1) [OF this Suc.prems(1) le, of "vals @ [low]"] u lt
  show ?case
    by (subst octet_range_loop.simps) (simp add: upt_conv_Cons word_less_nat_alt Suc.prems(2))
qed

text \<open>
  One segment of a part, written with digits. A literal is an error when it is above 255
  and otherwise adds its value. A range \<open>lo-hi\<close> (either bound may be missing, so this
  covers a lone \<open>-\<close>) is an error when a bound is above 255 or the low bound is above the
  high bound; it adds the values from the low to the high bound when the high bound is
  below 255; and when the high bound is 255 the parser does not return.
\<close>

lemma digits_value_nonneg: "list_all isDigit s \<Longrightarrow> 0 \<le> n \<Longrightarrow> 0 \<le> digits_value s n"
  by (induction s arbitrary: n) (auto simp: isDigit_def)

lemma isDigit_not_sign: "isDigit c \<Longrightarrow> c \<noteq> CHR ''-'' \<and> c \<noteq> CHR ''+''"
  by (auto simp: isDigit_def)

lemma isDigit_plain: "isDigit c \<Longrightarrow> \<not> isSpace c \<and> (of_char c :: nat) < 128"
  by (auto simp: isDigit_def isSpace_def)

lemma Atoi_digits:
  "list_all isDigit s \<Longrightarrow> s \<noteq> [] \<Longrightarrow>
   Atoi s = (if digits_value s 0 > 9223372036854775807 then None else Some (digits_value s 0))"
  by (cases s) (auto simp: Atoi_def dest: isDigit_not_sign)

lemma TrimLeftSpace_plain:
  "s = [] \<or> (\<not> isSpace (hd s) \<and> (of_char (hd s) :: nat) < 128) \<Longrightarrow> TrimLeftSpace s = s"
  by (cases s rule: TrimLeftSpace.cases) (auto simp: isSpace2_def isSpace3_def)

lemma TrimRightSpace_plain:
  "s = [] \<or> (\<not> isSpace (hd s) \<and> (of_char (hd s) :: nat) < 128) \<Longrightarrow> TrimRightSpace s = s"
  by (cases s rule: TrimRightSpace.cases) (auto simp: isSpace2_def isSpace3_def)

lemma TrimSpace_no_space:
  "list_all (\<lambda>c. \<not> isSpace c \<and> (of_char c :: nat) < 128) s \<Longrightarrow> TrimSpace s = s"
proof -
  assume a: "list_all (\<lambda>c. \<not> isSpace c \<and> (of_char c :: nat) < 128) s"
  then have l: "TrimLeftSpace s = s"
    by (cases s) (auto intro: TrimLeftSpace_plain)
  from a have "list_all (\<lambda>c. \<not> isSpace c \<and> (of_char c :: nat) < 128) (rev s)"
    by (simp add: list_all_iff)
  then have "TrimRightSpace (rev s) = rev s"
    by (cases "rev s") (auto intro: TrimRightSpace_plain)
  with l show ?thesis by (simp add: TrimSpace_def)
qed

text \<open>White space of Unicode around a segment is removed, at both ends.\<close>

lemma TrimSpace_unicode_example:
  "TrimSpace ([char_of (194 :: nat), char_of (160 :: nat)] @ '' 7''
              @ [char_of (226 :: nat), char_of (128 :: nat), char_of (131 :: nat)]) = ''7''"
  by (simp add: TrimSpace_def isSpace_def isSpace2_def isSpace3_def)

lemma Contains_byte: "Contains s [c] = (c \<in> set s)"
  by (induction s) (auto simp: HasPrefix_def)

lemma SplitN2_first:
  "sep \<notin> set lo \<Longrightarrow> SplitN2 (lo @ sep # hi) sep = [lo, hi]"
proof -
  assume a: "sep \<notin> set lo"
  then have t: "takeWhile (\<lambda>x. x \<noteq> sep) (lo @ sep # hi) = lo"
    by (induction lo) auto
  from a have d: "dropWhile (\<lambda>x. x \<noteq> sep) (lo @ sep # hi) = sep # hi"
    by (induction lo) auto
  show ?thesis by (simp add: SplitN2_def t d)
qed

lemma byte_of_int_unat: "0 \<le> l \<Longrightarrow> l \<le> 255 \<Longrightarrow> unat (word_of_int l :: byte) = nat l"
proof -
  assume a: "0 \<le> l" "l \<le> 255"
  have "uint (word_of_int l :: byte) = l mod 2 ^ LENGTH(8)"
    by (rule uint_word_of_int)
  with a have "uint (word_of_int l :: byte) = l" by simp
  then have "nat (uint (word_of_int l :: byte)) = nat l" by (simp only:)
  then show ?thesis by (simp only: unat_eq_nat_uint)
qed

lemma byte_of_int_less:
  "0 \<le> l \<Longrightarrow> l \<le> 255 \<Longrightarrow> 0 \<le> h \<Longrightarrow> h \<le> 255 \<Longrightarrow>
   ((word_of_int h :: byte) < word_of_int l) = (h < l)"
  by (simp only: word_less_nat_alt byte_of_int_unat) auto

lemma parseNmapBound_digits:
  "list_all isDigit b \<Longrightarrow> b \<noteq> [] \<Longrightarrow>
   parseNmapBound b dflt =
     (if digits_value b 0 > 255 then Inl ErrInvalidOctetRange
      else Inr (word_of_int (digits_value b 0)))"
  using digits_value_nonneg [of b 0]
  by (auto simp: parseNmapBound_def Atoi_digits)

lemma parseNmapBound_empty: "parseNmapBound [] dflt = Inr dflt"
  by (simp add: parseNmapBound_def)


lemma digits_no_dash: "list_all isDigit s \<Longrightarrow> CHR ''-'' \<notin> set s"
  by (induction s) (auto simp: isDigit_def)

lemma digits_no_space:
  "list_all isDigit s \<Longrightarrow> list_all (\<lambda>c. \<not> isSpace c \<and> (of_char c :: nat) < 128) s"
  by (induction s) (auto simp: isDigit_plain)

lemma parseNmapSegment_literal:
  "list_all isDigit s \<Longrightarrow> s \<noteq> [] \<Longrightarrow>
   parseNmapSegment s vals =
     Some (if digits_value s 0 > 255 then Inl ErrInvalidOctetValue
           else Inr (vals @ [word_of_int (digits_value s 0)]))"
proof -
  assume d: "list_all isDigit s" and n: "s \<noteq> []"
  from d have t: "TrimSpace s = s" by (simp add: TrimSpace_no_space digits_no_space)
  from d have c: "\<not> Contains s ''-''" by (simp add: Contains_byte digits_no_dash)
  from d have "s \<noteq> ''-''" by (auto simp: isDigit_def)
  with t c d n digits_value_nonneg [of s 0] show ?thesis
    by (auto simp: parseNmapSegment_def Atoi_digits)
qed

lemma parseNmapBound_low:
  "list_all isDigit lo \<Longrightarrow>
   parseNmapBound lo 0 = (if range_low lo > 255 then Inl ErrInvalidOctetRange
                          else Inr (word_of_int (range_low lo)))"
  by (cases "lo = []") (simp_all add: range_low_def parseNmapBound_empty parseNmapBound_digits)

lemma parseNmapBound_high:
  "list_all isDigit hi \<Longrightarrow>
   parseNmapBound hi 255 = (if range_high hi > 255 then Inl ErrInvalidOctetRange
                            else Inr (word_of_int (range_high hi)))"
  by (cases "hi = []") (simp_all add: range_high_def parseNmapBound_empty parseNmapBound_digits)

lemma range_bounds_nonneg:
  "list_all isDigit lo \<Longrightarrow> 0 \<le> range_low lo"
  "list_all isDigit hi \<Longrightarrow> 0 \<le> range_high hi"
  by (simp_all add: range_low_def range_high_def digits_value_nonneg)

lemma range_after_bounds:
  assumes l: "0 \<le> l" "l \<le> 255" and h: "0 \<le> h" "h \<le> 255"
  shows "(if (word_of_int l :: byte) > word_of_int h then Some (Inl ErrOctetRangeLowHigh)
          else map_option Inr (octet_range_loop (word_of_int l) (word_of_int h) vals)) =
         (if h < l then Some (Inl ErrOctetRangeLowHigh)
          else if h = 255 then None
          else Some (Inr (vals @ map word_of_nat [nat l..<Suc (nat h)])))"
proof (cases "h < l")
  case True
  with l h show ?thesis by (simp add: byte_of_int_less)
next
  case False
  with l h have nl: "\<not> (word_of_int h :: byte) < word_of_int l" by (simp add: byte_of_int_less)
  show ?thesis
  proof (cases "h = 255")
    case True
    with nl False show ?thesis by (simp add: octet_range_loop_255)
  next
    case ne: False
    with h have "h < 255" by simp
    with h have hi: "(word_of_int h :: byte) < 255"
      using byte_of_int_less [of 255 h] by simp
    from nl have le: "(word_of_int l :: byte) \<le> word_of_int h" by simp
    from octet_range_loop_below_255 [OF hi le, of vals] l h nl False ne
    show ?thesis by (simp add: byte_of_int_unat)
  qed
qed

lemma parseNmapSegment_range:
  assumes lo: "list_all isDigit lo" and hi: "list_all isDigit hi"
  shows "parseNmapSegment (lo @ CHR ''-'' # hi) vals =
     (if range_low lo > 255 \<or> range_high hi > 255 then Some (Inl ErrInvalidOctetRange)
      else if range_high hi < range_low lo then Some (Inl ErrOctetRangeLowHigh)
      else if range_high hi = 255 then None
      else Some (Inr (vals @ map word_of_nat [nat (range_low lo)..<Suc (nat (range_high hi))])))"
proof -
  let ?seg = "lo @ CHR ''-'' # hi"
  have "\<not> isSpace (CHR ''-'') \<and> (of_char (CHR ''-'') :: nat) < 128" by (simp add: isSpace_def)
  with lo hi have "list_all (\<lambda>c. \<not> isSpace c \<and> (of_char c :: nat) < 128) ?seg"
    by (simp add: digits_no_space)
  then have t: "TrimSpace ?seg = ?seg" by (rule TrimSpace_no_space)
  note ra = range_after_bounds [OF range_bounds_nonneg(1) [OF lo] _ range_bounds_nonneg(2) [OF hi]]
  show ?thesis
  proof (cases "lo = [] \<and> hi = []")
    case True
    have s: "SplitN2 ''0-255'' (CHR ''-'') = [''0'', ''255'']"
      by (simp add: SplitN2_def)
    have b0: "parseNmapBound ''0'' 0 = Inr 0"
      by (simp add: parseNmapBound_def Atoi_def isDigit_def)
    have b1: "parseNmapBound ''255'' 255 = Inr 255"
      by (simp add: parseNmapBound_def Atoi_def isDigit_def)
    from True show ?thesis
      by (simp add: parseNmapSegment_def TrimSpace_def isSpace_def isSpace2_def isSpace3_def
          s b0 b1 HasPrefix_def
          range_low_def range_high_def octet_range_loop_255)
  next
    case False
    then have "length ?seg \<noteq> length ''-''" by auto
    then have ne: "?seg \<noteq> ''-''" by (metis (no_types))
    have c: "Contains ?seg ''-''" by (simp add: Contains_byte)
    from lo have sp: "SplitN2 ?seg (CHR ''-'') = [lo, hi]"
      by (simp add: SplitN2_first digits_no_dash)
    have step: "parseNmapSegment ?seg vals =
        (case parseNmapBound lo 0 of
           Inl e \<Rightarrow> Some (Inl e)
         | Inr low \<Rightarrow>
             (case parseNmapBound hi 255 of
                Inl e \<Rightarrow> Some (Inl e)
              | Inr high \<Rightarrow>
                  (if low > high then Some (Inl ErrOctetRangeLowHigh)
                   else map_option Inr (octet_range_loop low high vals))))"
      unfolding parseNmapSegment_def t Let_def using ne c
      by (simp add: sp cong: sum.case_cong)
    show ?thesis
    proof (cases "range_low lo > 255 \<or> range_high hi > 255")
      case True
      then show ?thesis
        unfolding step parseNmapBound_low [OF lo] parseNmapBound_high [OF hi] by auto
    next
      case False
      then have b: "range_low lo \<le> 255" "range_high hi \<le> 255" by auto
      from False ra [OF b, of vals] show ?thesis
        unfolding step parseNmapBound_low [OF lo] parseNmapBound_high [OF hi] by simp
    qed
  qed
qed

lemmas nmap_eval =
  parseNmapIPRange_def parseNmapOctet_def parseNmapSegment_def parseNmapBound_def
  SplitN2_def TrimSpace_def isSpace_def isSpace2_def isSpace3_def Atoi_def isDigit_def
  HasPrefix_def

lemma parseNmapOctet_0_255: "parseNmapOctet ''0-255'' = None"
  by (simp add: nmap_eval octet_range_loop_255)

lemma parseNmapOctet_dash: "parseNmapOctet ''-'' = None"
  by (simp add: nmap_eval octet_range_loop_255)

text \<open>
  C8. The claim is that a lone \<open>-\<close> and a missing high bound stand for the values up to
  255 and that the parser then succeeds. In the code the parser does not return on such
  input: on the range rule \<open>10.0.0-255.5,10\<close> of the specification neither
  \<open>parseNmapIPRange\<close> nor \<open>parseLine\<close> (with any library) returns, and the same holds for
  a lone \<open>-\<close>.
\<close>

theorem C8_full_range_never_returns:
  "isNmapIPRange ''10.0.0-255.5,10''
   \<and> parseNmapIPRange ''10.0.0-255.5,10'' = None
   \<and> parseLine lib ''10.0.0-255.5,10'' True = None
   \<and> parseNmapIPRange ''10.0.0.-'' = None"
proof -
  have a: "isNmapIPRange ''10.0.0-255.5,10''"
    by (simp add: isNmapIPRange_def Count_def ContainsAny_def)
  have b: "parseNmapIPRange ''10.0.0-255.5,10'' = None"
    by (simp add: nmap_eval octet_range_loop_255)
  have c: "parseLine lib ''10.0.0-255.5,10'' True = None"
    unfolding parseLine_def using a b by (simp add: HasPrefix_def)
  have d: "parseNmapIPRange ''10.0.0.-'' = None"
    by (simp add: nmap_eval octet_range_loop_255)
  from a b c d show ?thesis by simp
qed

text \<open>A range whose high bound is below 255 is parsed.\<close>

lemma parseNmapIPRange_example:
  "parseNmapIPRange ''10.0.0-7.5,10'' = Some (Inr nmap_10_0_0to7_5or10)"
  by (simp add: nmap_eval nmap_10_0_0to7_5or10_def octet_range_loop.simps)

section \<open>Properties of the misconfiguration detector\<close>

text \<open>
  For a rule, \<open>parseLine\<close> returns the host as a string and never a \<open>*url.URL\<close>, so the
  branch of \<open>isAndroidPackageName\<close> that consults the public suffix list is never taken:
  with the flag off the detector answers "not flagged" whenever the classifier returns.
  With the flag on it answers "flagged" for every input.
\<close>

lemma parseLine_IP_URL_scope_not_URL: "parseLine_IP_URL lib line True \<noteq> Inr (URLV u)"
  by (simp add: parseLine_IP_URL_def split: option.splits sum.splits)

lemma parseLine_scope_not_URL: "parseLine lib line True \<noteq> Some (Inr (URLV u))"
  by (simp add: parseLine_def Let_def parseLine_IP_URL_scope_not_URL
      split: option.splits sum.splits)

lemma isAndroidPackageName_flag_set:
  "isAndroidPackageName lib chainMode rawScope True = Some (Inr True)"
  by (simp add: isAndroidPackageName_def)

lemma isAndroidPackageName_never_flags:
  "isAndroidPackageName lib chainMode rawScope False \<noteq> Some (Inr True)"
proof (cases "parseLine lib rawScope True")
  case None
  then show ?thesis by (simp add: isAndroidPackageName_def)
next
  case (Some r)
  with parseLine_scope_not_URL [of lib rawScope] show ?thesis
    by (auto simp: isAndroidPackageName_def split: sum.splits parsed.splits)
qed

lemma isAndroidPackageName_enabled:
  "isAndroidPackageName lib chainMode rawScope False =
     map_option (\<lambda>r. Inr False) (parseLine lib rawScope True)"
proof (cases "parseLine lib rawScope True")
  case None
  then show ?thesis by (simp add: isAndroidPackageName_def)
next
  case (Some r)
  with parseLine_scope_not_URL [of lib rawScope] show ?thesis
    by (auto simp: isAndroidPackageName_def split: sum.splits parsed.splits)
qed

text \<open>
  C6. The claim is that with the private-TLDs flag set every non-empty
  \<open>web_application\<close> entry is accepted. In the code \<open>isAndroidPackageName\<close> returns the
  flag itself, that is "flagged", so \<open>getCompanyScopes\<close> drops every entry and reports
  that the program has no in-scope entries; with the flag off the same entry is kept.
\<close>

theorem C6_flag_set_rejects_every_entry:
  "isAndroidPackageName lib chainMode rawScope True = Some (Inr True)
   \<and> getCompanyScopes example_lib True example_db 0 True = Some (Inl ErrNoInscopes)
   \<and> getCompanyScopes example_lib True example_db 0 False = Some (Inr ([''example.com''], []))"
proof -
  have a: "isAndroidPackageName example_lib True ''example.com'' False = Some (Inr False)"
    by (simp add: isAndroidPackageName_enabled parse_eval matcher_eval)
  have b: "getCompanyScopes example_lib True example_db 0 False
             = Some (Inr ([''example.com''], []))"
    by (simp add: getCompanyScopes_def example_db_def a)
  have c: "getCompanyScopes example_lib True example_db 0 True = Some (Inl ErrNoInscopes)"
    by (simp add: getCompanyScopes_def example_db_def isAndroidPackageName_flag_set)
  from b c show ?thesis by (simp add: isAndroidPackageName_flag_set)
qed

text \<open>
  C7. The claim is that, with the detector enabled, an entry that classifies as a host
  name is flagged and left out of the rule set when the effective top-level domain of
  its host is not publicly registered or its text begins with \<open>com.\<close> or \<open>org.\<close>. In the
  code the package name \<open>com.my.businness.gatewayportal\<close> of the program's own
  documentation classifies as a host name, begins with \<open>com.\<close>, has a last label that is
  no public suffix, and is not flagged: \<open>getCompanyScopes\<close> keeps it among the in-scope
  lines.
\<close>

theorem C7_package_name_not_flagged:
  "HasPrefix ''com.my.businness.gatewayportal'' ''com.''
   \<and> parseLine example_lib ''com.my.businness.gatewayportal'' True
       = Some (Inr (StringV ''com.my.businness.gatewayportal''))
   \<and> \<not> snd (publicsuffix_PublicSuffix example_lib ''com.my.businness.gatewayportal'')
   \<and> isAndroidPackageName example_lib False ''com.my.businness.gatewayportal'' False
       = Some (Inr False)
   \<and> isAndroidPackageName example_lib True ''com.my.businness.gatewayportal'' False
       = Some (Inr False)
   \<and> getCompanyScopes example_lib True package_db 0 False
       = Some (Inr ([''com.my.businness.gatewayportal''], []))"
proof -
  have a: "HasPrefix ''com.my.businness.gatewayportal'' ''com.''"
    by (simp add: HasPrefix_def)
  have b: "parseLine example_lib ''com.my.businness.gatewayportal'' True
     = Some (Inr (StringV ''com.my.businness.gatewayportal''))"
    by (simp add: parse_eval matcher_eval)
  have c: "\<not> snd (publicsuffix_PublicSuffix example_lib ''com.my.businness.gatewayportal'')"
    by (simp add: example_lib_def example_PublicSuffix_def)
  have d: "isAndroidPackageName example_lib chainMode ''com.my.businness.gatewayportal'' False
             = Some (Inr False)" for chainMode
    by (simp add: isAndroidPackageName_enabled b)
  have e: "getCompanyScopes example_lib True package_db 0 False
             = Some (Inr ([''com.my.businness.gatewayportal''], []))"
    by (simp add: getCompanyScopes_def package_db_def d)
  from a b c d e show ?thesis by simp
qed

end
